theory Spec2Isabelle
  imports Main
begin

section \<open>Type identifiers\<close>

text \<open>
  \<^verbatim>\<open>schema.GroupVersionKind\<close>, \<^verbatim>\<open>schema.GroupVersion\<close> and
  \<^verbatim>\<open>schema.GroupKind\<close> of the API machinery are plain structs of strings.
\<close>

record GroupVersionKind =
  Group :: string
  Version :: string
  Kind :: string

record GroupVersion =
  gvGroup :: string
  gvVersion :: string

record GroupKind =
  gkGroup :: string
  gkKind :: string

definition APIVersionInternal :: string where
  "APIVersionInternal = ''__internal''"

definition EmptyGVK :: GroupVersionKind where
  \<comment> \<open>the zero value \<^verbatim>\<open>schema.GroupVersionKind{}\<close>\<close>
  "EmptyGVK = \<lparr>Group = [], Version = [], Kind = []\<rparr>"

definition Empty :: "GroupVersionKind \<Rightarrow> bool" where
  \<comment> \<open>\<^verbatim>\<open>gvk.Empty()\<close>: all three strings have length 0\<close>
  "Empty gvk = (length (Group gvk) = 0 \<and> length (Version gvk) = 0 \<and> length (Kind gvk) = 0)"

definition GVKGroupVersion :: "GroupVersionKind \<Rightarrow> GroupVersion" where
  \<comment> \<open>\<^verbatim>\<open>gvk.GroupVersion()\<close>\<close>
  "GVKGroupVersion gvk = \<lparr>gvGroup = Group gvk, gvVersion = Version gvk\<rparr>"

definition GVKGroupKind :: "GroupVersionKind \<Rightarrow> GroupKind" where
  \<comment> \<open>\<^verbatim>\<open>gvk.GroupKind()\<close>\<close>
  "GVKGroupKind gvk = \<lparr>gkGroup = Group gvk, gkKind = Kind gvk\<rparr>"

definition GroupKindString :: "GroupKind \<Rightarrow> string" where
  \<comment> \<open>\<^verbatim>\<open>gk.String()\<close>: the kind alone when the group is empty, else kind.group\<close>
  "GroupKindString gk =
     (if length (gkGroup gk) = 0 then gkKind gk else gkKind gk @ ''.'' @ gkGroup gk)"

section \<open>Errors\<close>

text \<open>
  Go errors are values. The package has two sentinel errors (compared by identity), the
  struct \<^verbatim>\<open>CRDConversionError\<close> (an identifier, a cause and the wrapped error) and
  errors made on the spot by \<^verbatim>\<open>fmt.Errorf\<close>, which carry a message only: the
  format string and its arguments are kept as they are written at the call. Errors of the
  collaborators (the registry, the serializers, a type's own conversion methods) are opaque
  and named by a string. A nil pointer dereference aborts the call; it is the last
  constructor.
\<close>

datatype CRDConversionErrorCause =
  CRDConversionErrorCauseConvertTo
| CRDConversionErrorCauseConvertFrom
| CRDConversionErrorCauseSchemeSetup
| CRDConversionErrorCauseInvalidArgs

datatype error =
  ErrUnsupportedContentType
| ErrObjectNotInternal
| Errorf string "fmtarg list"
| CRDConversionError "GroupVersionKind option" CRDConversionErrorCause "error option"
| ExternalError string
| PanicNilPointer
and fmtarg =
  ArgBool bool
| ArgErr "error option"
| ArgString string
| ArgGVK GroupVersionKind
| ArgGVKs "GroupVersionKind list"

definition NewCRDConversionError ::
  "GroupVersionKind option \<Rightarrow> CRDConversionErrorCause \<Rightarrow> error option \<Rightarrow> error" where
  "NewCRDConversionError gvk cause err = CRDConversionError gvk cause err"

section \<open>Objects and the registry\<close>

text \<open>
  A \<^verbatim>\<open>runtime.Object\<close> is a pointer to a struct of some concrete Go type. What the
  code reads of it is its concrete type (the registry is keyed by it, and the interfaces
  Hub and Convertible are satisfied by it or not), the identifier it carries
  (\<^verbatim>\<open>obj.GetObjectKind().GroupVersionKind()\<close>) and its fields.
\<close>

record Object =
  GoType :: string
  TypeMeta :: GroupVersionKind
  Fields :: "(string \<times> string) list"

datatype GroupVersioner = InternalGroupVersioner | ToGroupVersion GroupVersion

text \<open>
  \<^verbatim>\<open>runtime.Scheme\<close> is a collaborator: the methods the package calls are
  fields. \<^verbatim>\<open>AllKnownTypes\<close> is a Go map, ranged over in an unspecified order:
  the field lists its keys in the order of one iteration.
\<close>

record Scheme =
  ObjectKinds :: "Object \<Rightarrow> GroupVersionKind list \<times> bool \<times> error option"
  PrioritizedVersionsForGroup :: "string \<Rightarrow> GroupVersion list"
  AllKnownTypes :: "GroupVersionKind list"
  New :: "GroupVersionKind \<Rightarrow> error + Object"
  SchemeConvert :: "Object \<Rightarrow> Object \<Rightarrow> string option \<Rightarrow> error + Object"
  Default :: "Object \<Rightarrow> Object"
  SchemeConvertToVersion :: "Object \<Rightarrow> GroupVersioner \<Rightarrow> error + Object"

section \<open>Identifier resolution\<close>

definition gvkForObject :: "Scheme \<Rightarrow> Object \<Rightarrow> error + GroupVersionKind" where
  "gvkForObject scheme obj =
     (let gvk = TypeMeta obj in
      if \<not> Empty gvk then Inr gvk
      else
        (case ObjectKinds scheme obj of (gvks, unversioned, err) \<Rightarrow>
           if unversioned \<or> err \<noteq> None \<or> length gvks \<noteq> 1
           then Inl (Errorf ''unversioned %t or err %v or invalid gvks %v''
                       [ArgBool unversioned, ArgErr err, ArgGVKs gvks])
           else Inr (hd gvks)))"

definition externalGVKForObject :: "Scheme \<Rightarrow> Object \<Rightarrow> error + GroupVersionKind" where
  "externalGVKForObject scheme obj =
     (case gvkForObject scheme obj of
        Inl err \<Rightarrow> Inl err
      | Inr gvk \<Rightarrow>
          if Version gvk \<noteq> APIVersionInternal then Inl ErrObjectNotInternal
          else
            (let gvs = PrioritizedVersionsForGroup scheme (Group gvk) in
             if length gvs < 1
             then Inl (Errorf ''expected some version to be registered for group %s''
                         [ArgString (Group gvk)])
             else Inr (gvk\<lparr>Version := gvVersion (gvs ! 0)\<rparr>)))"

section \<open>Encoding\<close>

text \<open>
  The \<^verbatim>\<open>FrameWriter\<close> has a fixed content type and receives one frame for each
  object written. The \<^verbatim>\<open>CodecFactory\<close> is a collaborator:
  \<^verbatim>\<open>SupportedMediaType\<close> says whether
  \<^verbatim>\<open>runtime.SerializerInfoForMediaType\<close> finds the content type, and
  \<^verbatim>\<open>EncoderForVersion mediaType pretty gv obj\<close> is what the serializer of that
  media type (the pretty one or the compact one), specialised to the group version
  \<^verbatim>\<open>gv\<close>, writes for \<^verbatim>\<open>obj\<close>, or its error. A serializer that
  fails is taken to have written nothing.
\<close>

record FrameWriter =
  ContentType :: string
  Frames :: "string list"

record CodecFactory =
  SupportedMediaType :: "string \<Rightarrow> bool"
  EncoderForVersion :: "string \<Rightarrow> bool \<Rightarrow> GroupVersion \<Rightarrow> Object \<Rightarrow> error + string"

record EncodingOptions =
  Pretty :: "bool option"

record schemeAndCodec =
  scheme :: Scheme
  codecs :: CodecFactory

record encoder = schemeAndCodec +
  opts :: EncodingOptions

definition EncodeForGroupVersion ::
  "encoder \<Rightarrow> FrameWriter \<Rightarrow> Object \<Rightarrow> GroupVersion \<Rightarrow> error option \<times> FrameWriter" where
  "EncodeForGroupVersion e fw obj gv =
     (if \<not> SupportedMediaType (codecs e) (ContentType fw)
      then (Some ErrUnsupportedContentType, fw)
      else
        (case Pretty (opts e) of
           None \<Rightarrow> (Some PanicNilPointer, fw)
         | Some pretty \<Rightarrow>
             (case EncoderForVersion (codecs e) (ContentType fw) pretty gv obj of
                Inl err \<Rightarrow> (Some err, fw)
              | Inr frame \<Rightarrow> (None, fw\<lparr>Frames := Frames fw @ [frame]\<rparr>))))"

text \<open>
  \<^verbatim>\<open>Encode\<close> is a loop over the objects that returns at the first error. The two
  revisions of the file have the same loop (the older one also prints the identifier
  before and after the resolution, which changes nothing of what is written or returned).
\<close>

fun Encode :: "encoder \<Rightarrow> FrameWriter \<Rightarrow> Object list \<Rightarrow> error option \<times> FrameWriter" where
  "Encode e fw [] = (None, fw)"
| "Encode e fw (obj # objs) =
     (case gvkForObject (scheme e) obj of
        Inl err \<Rightarrow> (Some err, fw)
      | Inr gvk \<Rightarrow>
          (case (if Version gvk = APIVersionInternal
                 then externalGVKForObject (scheme e) obj else Inr gvk) of
             Inl err \<Rightarrow> (Some err, fw)
           | Inr gvk' \<Rightarrow>
               (case EncodeForGroupVersion e fw obj (GVKGroupVersion gvk') of
                  (Some err, fw') \<Rightarrow> (Some err, fw')
                | (None, fw') \<Rightarrow> Encode e fw' objs)))"

section \<open>Defaulting an internal object\<close>

text \<open>
  \<^verbatim>\<open>DefaultInternal\<close> changes \<^verbatim>\<open>cfg\<close> in place and returns an error or
  nil: the model returns the error, or the object as the call leaves it.
\<close>

definition DefaultInternal :: "Scheme \<Rightarrow> Object \<Rightarrow> error + Object" where
  "DefaultInternal s cfg =
     (case externalGVKForObject s cfg of
        Inl err \<Rightarrow> Inl err
      | Inr gvk \<Rightarrow>
          (case New s gvk of
             Inl err \<Rightarrow> Inr cfg
           | Inr external \<Rightarrow>
               (case SchemeConvert s cfg external None of
                  Inl err \<Rightarrow> Inl err
                | Inr external' \<Rightarrow> SchemeConvert s (Default s external') cfg None)))"

section \<open>Conversion\<close>

text \<open>
  Whether a Go type implements \<^verbatim>\<open>conversion.Hub\<close> or
  \<^verbatim>\<open>conversion.Convertible\<close>, and the conversion methods a Convertible type
  brings, belong to the program's types, not to the registry.
  \<^verbatim>\<open>ConvertTo T src hub\<close> is \<^verbatim>\<open>src.ConvertTo(hub)\<close> and
  \<^verbatim>\<open>ConvertFrom T dst hub\<close> is \<^verbatim>\<open>dst.ConvertFrom(hub)\<close>; each returns
  the object it writes into, or its error.
\<close>

record GoTypes =
  Hub :: "string \<Rightarrow> bool"
  Convertible :: "string \<Rightarrow> bool"
  ConvertTo :: "Object \<Rightarrow> Object \<Rightarrow> error + Object"
  ConvertFrom :: "Object \<Rightarrow> Object \<Rightarrow> error + Object"

record convertor =
  convScheme :: Scheme
  doConvertToHub :: bool

definition DeepCopyObject :: "Object \<Rightarrow> Object" where
  \<comment> \<open>a new object with the same type, identifier and fields; objects are values here\<close>
  "DeepCopyObject obj = \<lparr>GoType = GoType obj, TypeMeta = TypeMeta obj, Fields = Fields obj\<rparr>"

text \<open>
  Modelled from the spec: \<^verbatim>\<open>webhookconversion.IsConvertible\<close> is a function of
  the controller-runtime library and is not among the sources. The spec (4.3) says of the
  validation that it checks that the kind of \<^verbatim>\<open>in\<close> has exactly one discoverable
  Hub among the registered versions; the library's doc comment says that the group-kind
  needs a Hub type and that all non-hub types must be able to convert to and from it. The
  definition follows the library: it collects the identifiers of the object's group-kind,
  makes an instance of each, sorts the instances into hubs, spokes and others, and accepts
  exactly one hub and no others, for a kind of more than one version.
\<close>

definition objectGVKs :: "Scheme \<Rightarrow> Object \<Rightarrow> error + GroupVersionKind list" where
  \<comment> \<open>Modelled from the spec: the library's helper of \<^verbatim>\<open>IsConvertible\<close>, all
      known identifiers of the group-kind the object's type is registered for\<close>
  "objectGVKs s obj =
     (case ObjectKinds s obj of (objGVKs, unversioned, err) \<Rightarrow>
        (case err of
           Some e \<Rightarrow> Inl e
         | None \<Rightarrow>
             if length objGVKs \<noteq> 1
             then Inl (Errorf ''expect to get only one GVK for %v'' [ArgString (GoType obj)])
             else Inr (filter (\<lambda>gvk. GVKGroupKind (hd objGVKs) = GVKGroupKind gvk)
                         (AllKnownTypes s))))"

text \<open>
  Modelled from the spec: the loop of \<^verbatim>\<open>IsConvertible\<close> over the identifiers of
  the kind, which makes an instance of each and appends it to the hubs, the spokes or the
  others.
\<close>

fun sortInstances ::
  "GoTypes \<Rightarrow> Scheme \<Rightarrow> GroupVersionKind list \<Rightarrow> Object list \<Rightarrow> Object list \<Rightarrow> Object list
     \<Rightarrow> error + (Object list \<times> Object list \<times> Object list)" where
  "sortInstances T s [] hubs spokes nonSpokes = Inr (hubs, spokes, nonSpokes)"
| "sortInstances T s (gvk # gvks) hubs spokes nonSpokes =
     (case New s gvk of
        Inl err \<Rightarrow>
          Inl (Errorf ''failed to allocate an instance for gvk %v %v'' [ArgGVK gvk, ArgErr (Some err)])
      | Inr instance \<Rightarrow>
          if Hub T (GoType instance)
          then sortInstances T s gvks (hubs @ [instance]) spokes nonSpokes
          else if \<not> Convertible T (GoType instance)
          then sortInstances T s gvks hubs spokes (nonSpokes @ [instance])
          else sortInstances T s gvks hubs (spokes @ [instance]) nonSpokes)"

definition IsConvertible :: "GoTypes \<Rightarrow> Scheme \<Rightarrow> Object \<Rightarrow> bool \<times> error option" where
  \<comment> \<open>Modelled from the spec: \<^verbatim>\<open>webhookconversion.IsConvertible\<close>, which accepts
      a kind of several versions with exactly one Hub and no version that is neither Hub
      nor Convertible\<close>
  "IsConvertible T s obj =
     (case objectGVKs s obj of
        Inl err \<Rightarrow> (False, Some err)
      | Inr gvks \<Rightarrow>
          if length gvks = 0
          then (False, Some (Errorf ''error retrieving gvks for object : %v'' [ArgString (GoType obj)]))
          else
            (case sortInstances T s gvks [] [] [] of
               Inl err \<Rightarrow> (False, Some err)
             | Inr (hubs, spokes, nonSpokes) \<Rightarrow>
                 if length gvks = 1 then (False, None)
                 else if length hubs = 1 \<and> length nonSpokes = 0 then (True, None)
                 else (False, Some (ExternalError ''PartialImplementationError''))))"

definition validateConvertible :: "GoTypes \<Rightarrow> Object \<Rightarrow> Scheme \<Rightarrow> error + GroupVersionKind" where
  "validateConvertible T inp s =
     (case gvkForObject s inp of
        Inl err \<Rightarrow> Inl err
      | Inr gvk \<Rightarrow>
          (case IsConvertible T s inp of
             (ok, Some err) \<Rightarrow>
               Inl (NewCRDConversionError (Some gvk) CRDConversionErrorCauseSchemeSetup (Some err))
           | (ok, None) \<Rightarrow>
               if \<not> ok
               then Inl (NewCRDConversionError (Some gvk) CRDConversionErrorCauseSchemeSetup None)
               else Inr gvk))"

definition populateGVK :: "Object \<Rightarrow> Scheme \<Rightarrow> error + Object" where
  "populateGVK obj s =
     (case gvkForObject s obj of
        Inl err \<Rightarrow> Inl err
      | Inr gvk \<Rightarrow> Inr (obj\<lparr>TypeMeta := gvk\<rparr>))"

text \<open>
  \<^verbatim>\<open>findHubType\<close> ranges over the map of known types and returns at the first
  identifier that passes its four tests. When none does, the hub it returns is nil and the
  identifier is the zero value.
\<close>

fun findHubTypeRange ::
  "GoTypes \<Rightarrow> GroupVersionKind \<Rightarrow> Scheme \<Rightarrow> GroupVersionKind list
     \<Rightarrow> Object option \<times> GroupVersionKind \<times> error option" where
  "findHubTypeRange T currentGVK s [] =
     (None, EmptyGVK,
      Some (Errorf ''no matching Hub target type for convertible of gvk %s'' [ArgGVK currentGVK]))"
| "findHubTypeRange T currentGVK s (gvk # gvks) =
     (if GroupKindString (GVKGroupKind gvk) \<noteq> GroupKindString (GVKGroupKind currentGVK)
      then findHubTypeRange T currentGVK s gvks
      else if Version gvk = Version currentGVK
      then findHubTypeRange T currentGVK s gvks
      else
        (case New s gvk of
           Inl err \<Rightarrow> findHubTypeRange T currentGVK s gvks
         | Inr obj \<Rightarrow>
             if \<not> Hub T (GoType obj) then findHubTypeRange T currentGVK s gvks
             else (Some obj, gvk, None)))"

definition findHubType ::
  "GoTypes \<Rightarrow> GroupVersionKind \<Rightarrow> Scheme \<Rightarrow> Object option \<times> GroupVersionKind \<times> error option" where
  "findHubType T currentGVK s = findHubTypeRange T currentGVK s (AllKnownTypes s)"

definition convertIntoHub :: "GoTypes \<Rightarrow> convertor \<Rightarrow> Object \<Rightarrow> Object \<Rightarrow> error + Object" where
  "convertIntoHub T c inp out =
     (case validateConvertible T inp (convScheme c) of
        Inl err \<Rightarrow> Inl err
      | Inr inGVK \<Rightarrow>
          (case ConvertTo T inp out of
             Inl err \<Rightarrow>
               Inl (NewCRDConversionError (Some inGVK) CRDConversionErrorCauseConvertTo (Some err))
           | Inr out' \<Rightarrow> populateGVK out' (convScheme c)))"

definition convertFromHub :: "GoTypes \<Rightarrow> convertor \<Rightarrow> Object \<Rightarrow> Object \<Rightarrow> error + Object" where
  "convertFromHub T c inp out =
     (case validateConvertible T out (convScheme c) of
        Inl err \<Rightarrow> Inl err
      | Inr outGVK \<Rightarrow>
          (case ConvertFrom T out inp of
             Inl err \<Rightarrow>
               Inl (NewCRDConversionError (Some outGVK) CRDConversionErrorCauseConvertFrom (Some err))
           | Inr out' \<Rightarrow> populateGVK out' (convScheme c)))"

definition Convert ::
  "GoTypes \<Rightarrow> convertor \<Rightarrow> Object \<Rightarrow> Object \<Rightarrow> string option \<Rightarrow> error + Object" where
  "Convert T c inp out context =
     (if Convertible T (GoType inp)
      then
        (if \<not> Hub T (GoType out)
         then Inl (NewCRDConversionError None CRDConversionErrorCauseInvalidArgs
                     (Some (Errorf ''if in object is Convertible, out must be Hub'' [])))
         else convertIntoHub T c inp out)
      else if Convertible T (GoType out)
      then
        (if \<not> Hub T (GoType inp)
         then Inl (NewCRDConversionError None CRDConversionErrorCauseInvalidArgs
                     (Some (Errorf ''if out object is Convertible, in must be Hub'' [])))
         else convertFromHub T c inp out)
      else SchemeConvert (convScheme c) inp out context)"

definition convertToHub :: "GoTypes \<Rightarrow> convertor \<Rightarrow> Object \<Rightarrow> error + Object" where
  "convertToHub T c inp =
     (case validateConvertible T inp (convScheme c) of
        Inl err \<Rightarrow> Inl err
      | Inr currentGVK \<Rightarrow>
          (case findHubType T currentGVK (convScheme c) of
             (hub, targetGVK, Some err) \<Rightarrow>
               Inl (NewCRDConversionError (Some targetGVK) CRDConversionErrorCauseSchemeSetup (Some err))
           | (None, targetGVK, None) \<Rightarrow> Inl PanicNilPointer
           | (Some hub, targetGVK, None) \<Rightarrow>
               (case ConvertTo T inp hub of
                  Inl err \<Rightarrow>
                    Inl (NewCRDConversionError (Some targetGVK) CRDConversionErrorCauseConvertTo (Some err))
                | Inr hub' \<Rightarrow> Inr (hub'\<lparr>TypeMeta := targetGVK\<rparr>))))"

definition ConvertToVersion ::
  "GoTypes \<Rightarrow> convertor \<Rightarrow> Object \<Rightarrow> GroupVersioner \<Rightarrow> error + Object" where
  "ConvertToVersion T c inp gv =
     (if \<not> doConvertToHub c then Inr (DeepCopyObject inp)
      else if Convertible T (GoType inp) then convertToHub T c inp
      else SchemeConvertToVersion (convScheme c) inp InternalGroupVersioner)"

section \<open>Notions of the specification\<close>

text \<open>
  The composition the specification gives for defaulting an internal object: convert the
  object to its preferred external version (a new object of that identifier, then the
  registry's conversion into it), apply the defaulting rules to the external object, and
  convert the defaulted object back into the internal one. A step that fails ends the
  composition with its error.
\<close>

definition DefaultInternalComposition :: "Scheme \<Rightarrow> Object \<Rightarrow> error + Object" where
  "DefaultInternalComposition s cfg =
     (case externalGVKForObject s cfg of
        Inl err \<Rightarrow> Inl err
      | Inr gvk \<Rightarrow>
          (case New s gvk of
             Inl err \<Rightarrow> Inl err
           | Inr blank \<Rightarrow>
               (case SchemeConvert s cfg blank None of
                  Inl err \<Rightarrow> Inl err
                | Inr external \<Rightarrow> SchemeConvert s (Default s external) cfg None)))"

text \<open>
  What a caller can tell of an error without reading its message: whether it is one of the
  two sentinels (by comparison), whether it is a \<^verbatim>\<open>CRDConversionError\<close> and which
  cause it has (by a type assertion), or which error of a collaborator it is. All errors
  made by \<^verbatim>\<open>fmt.Errorf\<close> have one dynamic type and no identity, so they are of
  one kind.
\<close>

datatype errorKind =
  KindUnsupportedContentType
| KindObjectNotInternal
| KindErrorString
| KindCRDConversion CRDConversionErrorCause
| KindExternal string
| KindPanic

fun kindOf :: "error \<Rightarrow> errorKind" where
  "kindOf ErrUnsupportedContentType = KindUnsupportedContentType"
| "kindOf ErrObjectNotInternal = KindObjectNotInternal"
| "kindOf (Errorf f args) = KindErrorString"
| "kindOf (CRDConversionError gvk cause err) = KindCRDConversion cause"
| "kindOf (ExternalError name) = KindExternal name"
| "kindOf PanicNilPointer = KindPanic"

section \<open>Registries and types to evaluate the definitions on\<close>

text \<open>
  A registry built from a table of registered identifiers and their Go types, the way the
  API machinery's scheme keeps them: the identifiers of an object are those registered for
  its type (an error when there is none), and a new object of an identifier is a blank
  object of the type registered for it. The generic conversion copies the fields, as the
  conversion functions of the package's tests do.
\<close>

definition mkGVK :: "string \<Rightarrow> string \<Rightarrow> string \<Rightarrow> GroupVersionKind" where
  "mkGVK g v k = \<lparr>Group = g, Version = v, Kind = k\<rparr>"

definition blankObject :: "string \<Rightarrow> Object" where
  "blankObject t = \<lparr>GoType = t, TypeMeta = EmptyGVK, Fields = []\<rparr>"

definition tableScheme ::
  "(GroupVersionKind \<times> string) list \<Rightarrow> string list \<Rightarrow> (string \<Rightarrow> GroupVersion list)
     \<Rightarrow> (Object \<Rightarrow> Object) \<Rightarrow> Scheme" where
  "tableScheme known unversionedTypes prioritized defaulter =
     \<lparr>ObjectKinds = (\<lambda>obj.
        (case filter (\<lambda>(gvk, t). t = GoType obj) known of
           [] \<Rightarrow> ([], False, Some (ExternalError ''notRegisteredErr''))
         | kt # kts \<Rightarrow>
             (map fst (kt # kts), List.member unversionedTypes (GoType obj), None))),
      PrioritizedVersionsForGroup = prioritized,
      AllKnownTypes = map fst known,
      New = (\<lambda>gvk.
        (case map_of known gvk of
           None \<Rightarrow> Inl (ExternalError ''notRegisteredErr'')
         | Some t \<Rightarrow> Inr (blankObject t))),
      SchemeConvert = (\<lambda>inp out context. Inr (out\<lparr>Fields := Fields inp\<rparr>)),
      Default = defaulter,
      SchemeConvertToVersion = (\<lambda>inp gv. Inl (ExternalError ''notRegisteredErr''))\<rparr>"

text \<open>
  The registry of the package's tests: the group \<^verbatim>\<open>foogroup\<close> with the kinds Simple
  and Complex in the internal version and in v1alpha1 and v1alpha2 (the two external
  versions share their Go types), v1alpha1 preferred, and the unversioned List. Two more
  internal kinds are added: \<^verbatim>\<open>Only\<close>, of the same group, has no external version, and
  \<^verbatim>\<open>Bar\<close> is alone in its group \<^verbatim>\<open>bargroup\<close>, which so has no version to
  prefer.
\<close>

definition fooKnownTypes :: "(GroupVersionKind \<times> string) list" where
  "fooKnownTypes =
     [(mkGVK [] ''v1'' ''List'', ''List''),
      (mkGVK ''foogroup'' APIVersionInternal ''Simple'', ''InternalSimple''),
      (mkGVK ''foogroup'' APIVersionInternal ''Complex'', ''InternalComplex''),
      (mkGVK ''foogroup'' ''v1alpha1'' ''Simple'', ''ExternalSimple''),
      (mkGVK ''foogroup'' ''v1alpha1'' ''Complex'', ''ExternalComplex''),
      (mkGVK ''foogroup'' ''v1alpha2'' ''Simple'', ''ExternalSimple''),
      (mkGVK ''foogroup'' ''v1alpha2'' ''Complex'', ''ExternalComplex''),
      (mkGVK ''foogroup'' APIVersionInternal ''Only'', ''InternalOnly''),
      (mkGVK ''bargroup'' APIVersionInternal ''Bar'', ''InternalBar'')]"

definition fooPrioritized :: "string \<Rightarrow> GroupVersion list" where
  "fooPrioritized g =
     (if g = ''foogroup''
      then [\<lparr>gvGroup = ''foogroup'', gvVersion = ''v1alpha1''\<rparr>,
            \<lparr>gvGroup = ''foogroup'', gvVersion = ''v1alpha2''\<rparr>]
      else [])"

definition fooDefaulter :: "Object \<Rightarrow> Object" where
  "fooDefaulter obj =
     (if GoType obj = ''ExternalComplex'' \<and> map_of (Fields obj) ''Integer64'' = None
      then obj\<lparr>Fields := Fields obj @ [(''Integer64'', ''5'')]\<rparr>
      else obj)"

definition fooScheme :: Scheme where
  "fooScheme = tableScheme fooKnownTypes [''List''] fooPrioritized fooDefaulter"

definition fooCodecs :: CodecFactory where
  "fooCodecs =
     \<lparr>SupportedMediaType = (\<lambda>ct. ct = ''application/json'' \<or> ct = ''application/yaml''),
      EncoderForVersion = (\<lambda>ct pretty gv obj.
        if GoType obj = ''Unencodable'' then Inl (ExternalError ''encode'')
        else Inr (gvGroup gv @ ''/'' @ gvVersion gv @ '' '' @ GoType obj))\<rparr>"

definition fooEncoder :: encoder where
  "fooEncoder = \<lparr>scheme = fooScheme, codecs = fooCodecs, opts = \<lparr>Pretty = Some False\<rparr>\<rparr>"

definition yamlWriter :: FrameWriter where
  "yamlWriter = \<lparr>ContentType = ''application/yaml'', Frames = []\<rparr>"

definition internalSimple :: Object where
  "internalSimple =
     \<lparr>GoType = ''InternalSimple'', TypeMeta = EmptyGVK, Fields = [(''TestString'', ''foo'')]\<rparr>"

definition internalComplex :: Object where
  "internalComplex =
     \<lparr>GoType = ''InternalComplex'', TypeMeta = EmptyGVK, Fields = [(''String'', ''bar'')]\<rparr>"

definition externalSimple :: Object where
  "externalSimple =
     \<lparr>GoType = ''ExternalSimple'', TypeMeta = mkGVK ''foogroup'' ''v1alpha2'' ''Simple'',
      Fields = [(''TestString'', ''foo'')]\<rparr>"

definition externalSimpleNoMeta :: Object where
  "externalSimpleNoMeta =
     \<lparr>GoType = ''ExternalSimple'', TypeMeta = EmptyGVK, Fields = [(''TestString'', ''foo'')]\<rparr>"

definition unregisteredObject :: Object where
  "unregisteredObject = \<lparr>GoType = ''Unregistered'', TypeMeta = EmptyGVK, Fields = []\<rparr>"

definition internalOnly :: Object where
  "internalOnly = \<lparr>GoType = ''InternalOnly'', TypeMeta = EmptyGVK, Fields = [(''Name'', ''x'')]\<rparr>"

definition internalBar :: Object where
  "internalBar = \<lparr>GoType = ''InternalBar'', TypeMeta = EmptyGVK, Fields = []\<rparr>"

text \<open>
  A kind in the style of controller-runtime: \<^verbatim>\<open>Widget\<close> of the group
  \<^verbatim>\<open>crd\<close>, whose version v1 is Convertible and whose versions v2 and v3 are Hubs.
  The first registry has v1 and v2, the second one all three. The to-hub conversion of a
  Widget copies the fields and fails on a widget that has no field.
\<close>

definition widgetTypes :: GoTypes where
  "widgetTypes =
     \<lparr>Hub = (\<lambda>t. t = ''WidgetV2'' \<or> t = ''WidgetV3''),
      Convertible = (\<lambda>t. t = ''WidgetV1''),
      ConvertTo = (\<lambda>src hub.
        if Fields src = [] then Inl (ExternalError ''ConvertTo'')
        else Inr (hub\<lparr>Fields := Fields src\<rparr>)),
      ConvertFrom = (\<lambda>dst hub.
        if Fields hub = [] then Inl (ExternalError ''ConvertFrom'')
        else Inr (dst\<lparr>Fields := Fields hub\<rparr>))\<rparr>"

definition widgetKnownTypes :: "(GroupVersionKind \<times> string) list" where
  "widgetKnownTypes =
     [(mkGVK ''crd'' ''v1'' ''Widget'', ''WidgetV1''),
      (mkGVK ''crd'' ''v2'' ''Widget'', ''WidgetV2''),
      (mkGVK ''foogroup'' ''v1alpha1'' ''Simple'', ''ExternalSimple''),
      (mkGVK ''foogroup'' APIVersionInternal ''Simple'', ''InternalSimple'')]"

definition widgetScheme :: Scheme where
  "widgetScheme = tableScheme widgetKnownTypes [] (\<lambda>g. []) (\<lambda>obj. obj)"

definition twoHubScheme :: Scheme where
  "twoHubScheme =
     tableScheme (widgetKnownTypes @ [(mkGVK ''crd'' ''v3'' ''Widget'', ''WidgetV3'')]) []
       (\<lambda>g. []) (\<lambda>obj. obj)"

definition widgetV1 :: Object where
  "widgetV1 = \<lparr>GoType = ''WidgetV1'', TypeMeta = EmptyGVK, Fields = [(''Size'', ''3'')]\<rparr>"

definition brokenWidgetV1 :: Object where
  "brokenWidgetV1 = \<lparr>GoType = ''WidgetV1'', TypeMeta = EmptyGVK, Fields = []\<rparr>"

definition widgetV2 :: Object where
  "widgetV2 = \<lparr>GoType = ''WidgetV2'', TypeMeta = EmptyGVK, Fields = [(''Size'', ''4'')]\<rparr>"

definition emptyWidgetV2 :: Object where
  "emptyWidgetV2 = \<lparr>GoType = ''WidgetV2'', TypeMeta = EmptyGVK, Fields = []\<rparr>"

text \<open>
  Nothing keeps a Go type from implementing both interfaces: in these types version v2 of
  the widget is a Hub and Convertible too.
\<close>

definition hubAndSpokeTypes :: GoTypes where
  "hubAndSpokeTypes =
     \<lparr>Hub = (\<lambda>t. t = ''WidgetV2'' \<or> t = ''WidgetV3''),
      Convertible = (\<lambda>t. t = ''WidgetV1'' \<or> t = ''WidgetV2''),
      ConvertTo = (\<lambda>src hub. Inr (hub\<lparr>Fields := Fields src\<rparr>)),
      ConvertFrom = (\<lambda>dst hub. Inr (dst\<lparr>Fields := Fields hub\<rparr>))\<rparr>"

section \<open>Evaluating the example registries\<close>

lemmas example_defs =
  fooScheme_def tableScheme_def fooKnownTypes_def fooPrioritized_def fooDefaulter_def
  fooCodecs_def fooEncoder_def yamlWriter_def internalSimple_def internalComplex_def
  externalSimple_def externalSimpleNoMeta_def unregisteredObject_def internalOnly_def
  internalBar_def widgetTypes_def widgetKnownTypes_def widgetScheme_def twoHubScheme_def
  widgetV1_def brokenWidgetV1_def widgetV2_def emptyWidgetV2_def mkGVK_def blankObject_def
  EmptyGVK_def APIVersionInternal_def

lemma gvk_internalSimple:
  "gvkForObject fooScheme internalSimple = Inr (mkGVK ''foogroup'' APIVersionInternal ''Simple'')"
  by (simp add: gvkForObject_def Empty_def example_defs)

lemma gvk_externalSimple:
  "gvkForObject fooScheme externalSimple = Inr (mkGVK ''foogroup'' ''v1alpha2'' ''Simple'')"
  by (simp add: gvkForObject_def Empty_def example_defs)

lemma gvk_internalBar:
  "gvkForObject fooScheme internalBar = Inr (mkGVK ''bargroup'' APIVersionInternal ''Bar'')"
  by (simp add: gvkForObject_def Empty_def example_defs)

lemma gvk_internalOnly:
  "gvkForObject fooScheme internalOnly = Inr (mkGVK ''foogroup'' APIVersionInternal ''Only'')"
  by (simp add: gvkForObject_def Empty_def example_defs)

lemma extgvk_internalOnly:
  "externalGVKForObject fooScheme internalOnly = Inr (mkGVK ''foogroup'' ''v1alpha1'' ''Only'')"
  by (simp add: externalGVKForObject_def gvk_internalOnly Let_def) (simp add: example_defs)

lemma New_external_Only:
  "New fooScheme (mkGVK ''foogroup'' ''v1alpha1'' ''Only'') = Inl (ExternalError ''notRegisteredErr'')"
  by (simp add: example_defs)

lemma scheme_fooEncoder: "scheme fooEncoder = fooScheme"
  by (simp add: fooEncoder_def)

lemma validate_brokenWidgetV1:
  "validateConvertible widgetTypes brokenWidgetV1 widgetScheme = Inr (mkGVK ''crd'' ''v1'' ''Widget'')"
  by (simp add: validateConvertible_def IsConvertible_def objectGVKs_def gvkForObject_def Empty_def
        GVKGroupKind_def example_defs)

section \<open>External identifier resolution\<close>

text \<open>
  C3. For an object whose identifier resolves, \<^verbatim>\<open>externalGVKForObject\<close> fails with
  the NotInternal error (\<^verbatim>\<open>ErrObjectNotInternal\<close>) when the resolved version is not
  the internal marker; for an internal one it fails with the error that no version is
  registered when the list of prioritized versions of the object's group is empty, and
  otherwise returns the resolved identifier with its version replaced by the version of
  the first prioritized entry.
\<close>

theorem externalGVKForObject_resolution:
  assumes "gvkForObject s obj = Inr gvk"
  shows "externalGVKForObject s obj =
           (if Version gvk \<noteq> APIVersionInternal then Inl ErrObjectNotInternal
            else
              (case PrioritizedVersionsForGroup s (Group gvk) of
                 [] \<Rightarrow> Inl (Errorf ''expected some version to be registered for group %s''
                              [ArgString (Group gvk)])
               | gv # gvs \<Rightarrow> Inr (gvk\<lparr>Version := gvVersion gv\<rparr>)))"
  using assms by (simp add: externalGVKForObject_def Let_def split: list.split)

theorem externalGVKForObject_resolution_witness:
  "externalGVKForObject fooScheme externalSimple = Inl ErrObjectNotInternal
   \<and> externalGVKForObject fooScheme internalBar =
       Inl (Errorf ''expected some version to be registered for group %s'' [ArgString ''bargroup''])
   \<and> externalGVKForObject fooScheme internalSimple = Inr (mkGVK ''foogroup'' ''v1alpha1'' ''Simple'')"
  using externalGVKForObject_resolution [OF gvk_externalSimple]
        externalGVKForObject_resolution [OF gvk_internalBar]
        externalGVKForObject_resolution [OF gvk_internalSimple]
  by (simp add: example_defs)

section \<open>Identifier resolution without an identifier\<close>

text \<open>
  C9, as the claim states it, fails: an object of an unregistered type (zero matches) and
  an object of a type registered under two identifiers (more than one match), neither
  carrying an identifier, get errors of the same kind from \<^verbatim>\<open>gvkForObject\<close>. Both
  are made by the one \<^verbatim>\<open>fmt.Errorf\<close> call and differ in the arguments of their
  message only.
\<close>

theorem gvkForObject_unknown_and_ambiguous_same_kind:
  "gvkForObject fooScheme unregisteredObject =
     Inl (Errorf ''unversioned %t or err %v or invalid gvks %v''
            [ArgBool False, ArgErr (Some (ExternalError ''notRegisteredErr'')), ArgGVKs []])
   \<and> gvkForObject fooScheme externalSimpleNoMeta =
     Inl (Errorf ''unversioned %t or err %v or invalid gvks %v''
            [ArgBool False, ArgErr None,
             ArgGVKs [mkGVK ''foogroup'' ''v1alpha1'' ''Simple'',
                      mkGVK ''foogroup'' ''v1alpha2'' ''Simple'']])
   \<and> kindOf (Errorf ''unversioned %t or err %v or invalid gvks %v''
            [ArgBool False, ArgErr (Some (ExternalError ''notRegisteredErr'')), ArgGVKs []])
     = kindOf (Errorf ''unversioned %t or err %v or invalid gvks %v''
            [ArgBool False, ArgErr None,
             ArgGVKs [mkGVK ''foogroup'' ''v1alpha1'' ''Simple'',
                      mkGVK ''foogroup'' ''v1alpha2'' ''Simple'']])"
  by (simp add: gvkForObject_def Empty_def example_defs)

text \<open>
  C9, amended. When identifier resolution is performed on an object that carries no
  identifier and the registry gives zero matches or more than one match for its concrete
  type, \<^verbatim>\<open>gvkForObject\<close> fails, in both cases with an error of the one kind that
  \<^verbatim>\<open>fmt.Errorf\<close> makes, whose message is built from the unversioned flag, the
  registry's error and the list of matches: the two cases can be told apart by that
  message only, and there is no UnknownType or AmbiguousType kind.
\<close>

theorem gvkForObject_no_unique_match:
  assumes "Empty (TypeMeta obj)" and "ObjectKinds s obj = (gvks, unversioned, err)"
      and "length gvks = 0 \<or> 1 < length gvks"
  shows "gvkForObject s obj =
           Inl (Errorf ''unversioned %t or err %v or invalid gvks %v''
                  [ArgBool unversioned, ArgErr err, ArgGVKs gvks])
         \<and> kindOf (Errorf ''unversioned %t or err %v or invalid gvks %v''
                  [ArgBool unversioned, ArgErr err, ArgGVKs gvks]) = KindErrorString"
  using assms by (auto simp: gvkForObject_def)

theorem gvkForObject_no_unique_match_witness:
  "Empty (TypeMeta unregisteredObject)
   \<and> ObjectKinds fooScheme unregisteredObject = ([], False, Some (ExternalError ''notRegisteredErr''))
   \<and> gvkForObject fooScheme unregisteredObject =
       Inl (Errorf ''unversioned %t or err %v or invalid gvks %v''
              [ArgBool False, ArgErr (Some (ExternalError ''notRegisteredErr'')), ArgGVKs []])
   \<and> Empty (TypeMeta externalSimpleNoMeta)
   \<and> ObjectKinds fooScheme externalSimpleNoMeta =
       ([mkGVK ''foogroup'' ''v1alpha1'' ''Simple'', mkGVK ''foogroup'' ''v1alpha2'' ''Simple''],
        False, None)
   \<and> gvkForObject fooScheme externalSimpleNoMeta =
       Inl (Errorf ''unversioned %t or err %v or invalid gvks %v''
              [ArgBool False, ArgErr None,
               ArgGVKs [mkGVK ''foogroup'' ''v1alpha1'' ''Simple'',
                        mkGVK ''foogroup'' ''v1alpha2'' ''Simple'']])"
proof -
  have e1: "Empty (TypeMeta unregisteredObject)" and e2: "Empty (TypeMeta externalSimpleNoMeta)"
    by (simp_all add: Empty_def example_defs)
  have k1: "ObjectKinds fooScheme unregisteredObject =
              ([], False, Some (ExternalError ''notRegisteredErr''))"
    by (simp add: example_defs)
  have k2: "ObjectKinds fooScheme externalSimpleNoMeta =
              ([mkGVK ''foogroup'' ''v1alpha1'' ''Simple'', mkGVK ''foogroup'' ''v1alpha2'' ''Simple''],
               False, None)"
    by (simp add: example_defs)
  from gvkForObject_no_unique_match [OF e1 k1] gvkForObject_no_unique_match [OF e2 k2] e1 e2 k1 k2
  show ?thesis by simp
qed

section \<open>Encoding\<close>

lemma Encode_single:
  "Encode e fw [obj] =
     (case gvkForObject (scheme e) obj of
        Inl err \<Rightarrow> (Some err, fw)
      | Inr gvk \<Rightarrow>
          (case (if Version gvk = APIVersionInternal
                 then externalGVKForObject (scheme e) obj else Inr gvk) of
             Inl err \<Rightarrow> (Some err, fw)
           | Inr gvk' \<Rightarrow> EncodeForGroupVersion e fw obj (GVKGroupVersion gvk')))"
  by (auto split: sum.splits prod.splits option.splits)

lemma Encode_Cons:
  "Encode e fw (obj # objs) =
     (case Encode e fw [obj] of
        (Some err, fw') \<Rightarrow> (Some err, fw')
      | (None, fw') \<Rightarrow> Encode e fw' objs)"
  by (auto split: sum.splits prod.splits option.splits)

text \<open>
  C2, as the claim states it, fails: the object \<^verbatim>\<open>internalBar\<close> resolves to an
  identifier of the internal version, its group has no prioritized version, and
  \<^verbatim>\<open>Encode\<close> returns the error of \<^verbatim>\<open>externalGVKForObject\<close> and writes no
  frame.
\<close>

theorem Encode_internal_without_version:
  "gvkForObject (scheme fooEncoder) internalBar = Inr (mkGVK ''bargroup'' APIVersionInternal ''Bar'')
   \<and> Version (mkGVK ''bargroup'' APIVersionInternal ''Bar'') = APIVersionInternal
   \<and> Encode fooEncoder yamlWriter [internalBar] =
       (Some (Errorf ''expected some version to be registered for group %s'' [ArgString ''bargroup'']),
        yamlWriter)
   \<and> Frames yamlWriter = []"
  by (simp add: Encode_single externalGVKForObject_def Let_def gvkForObject_def Empty_def
        example_defs del: Encode.simps)

text \<open>
  C2, amended. For every object whose resolved identifier carries the internal version
  marker and whose group has at least one prioritized version, \<^verbatim>\<open>Encode\<close> encodes
  the object for the group version made of its group and the first prioritized version
  (what is written, and whether the call succeeds, is what
  \<^verbatim>\<open>EncodeForGroupVersion\<close> does for that group version); when the group has no
  prioritized version, \<^verbatim>\<open>Encode\<close> fails and writes nothing. An object whose
  resolved identifier carries an external version is encoded for its own group version.
\<close>

theorem Encode_version_promotion:
  assumes "gvkForObject (scheme e) obj = Inr gvk"
  shows "Encode e fw [obj] =
           (if Version gvk = APIVersionInternal
            then
              (case PrioritizedVersionsForGroup (scheme e) (Group gvk) of
                 [] \<Rightarrow> (Some (Errorf ''expected some version to be registered for group %s''
                                 [ArgString (Group gvk)]), fw)
               | gv # gvs \<Rightarrow>
                   EncodeForGroupVersion e fw obj \<lparr>gvGroup = Group gvk, gvVersion = gvVersion gv\<rparr>)
            else EncodeForGroupVersion e fw obj \<lparr>gvGroup = Group gvk, gvVersion = Version gvk\<rparr>)"
  using assms
  by (simp add: Encode_single externalGVKForObject_def Let_def GVKGroupVersion_def
           del: Encode.simps split: list.split)

theorem Encode_version_promotion_witness:
  "Encode fooEncoder yamlWriter [internalSimple] =
     (None, yamlWriter\<lparr>Frames := [''foogroup/v1alpha1 InternalSimple'']\<rparr>)
   \<and> Encode fooEncoder yamlWriter [externalSimple] =
     (None, yamlWriter\<lparr>Frames := [''foogroup/v1alpha2 ExternalSimple'']\<rparr>)"
  using Encode_version_promotion [of fooEncoder internalSimple
          "mkGVK ''foogroup'' APIVersionInternal ''Simple''" yamlWriter]
        Encode_version_promotion [of fooEncoder externalSimple
          "mkGVK ''foogroup'' ''v1alpha2'' ''Simple''" yamlWriter]
        gvk_internalSimple gvk_externalSimple
  by (simp add: scheme_fooEncoder) (simp add: EncodeForGroupVersion_def example_defs)

subsection \<open>The first error ends the call\<close>

lemma EncodeForGroupVersion_appends:
  "EncodeForGroupVersion e fw obj gv =
     (case EncodeForGroupVersion e (fw\<lparr>Frames := []\<rparr>) obj gv of
        (r, fw0) \<Rightarrow> (r, fw\<lparr>Frames := Frames fw @ Frames fw0\<rparr>))"
  by (simp add: EncodeForGroupVersion_def split: option.split sum.split)

lemma Encode_single_appends:
  "Encode e fw [obj] =
     (case Encode e (fw\<lparr>Frames := []\<rparr>) [obj] of
        (r, fw0) \<Rightarrow> (r, fw\<lparr>Frames := Frames fw @ Frames fw0\<rparr>))"
  unfolding Encode_single
  by (subst EncodeForGroupVersion_appends) (simp split: sum.split prod.split)

lemma EncodeForGroupVersion_error_writes_nothing:
  "EncodeForGroupVersion e fw obj gv = (Some err, fw') \<Longrightarrow> fw' = fw"
  by (auto simp: EncodeForGroupVersion_def split: if_splits option.splits sum.splits)

lemma Encode_single_error_writes_nothing:
  "Encode e fw [obj] = (Some err, fw') \<Longrightarrow> fw' = fw"
  unfolding Encode_single
  by (auto split: sum.splits if_splits dest: EncodeForGroupVersion_error_writes_nothing)

lemma Encode_prefix_then_error:
  assumes "list_all2 (\<lambda>obj frame. Encode e w0 [obj] = (None, w0\<lparr>Frames := [frame]\<rparr>)) pre frames"
      and "fst (Encode e w0 [obj]) = Some err"
      and "fw\<lparr>Frames := []\<rparr> = w0"
  shows "Encode e fw (pre @ obj # rest) = (Some err, fw\<lparr>Frames := Frames fw @ frames\<rparr>)"
  using assms
proof (induction pre arbitrary: fw frames)
  case Nil
  obtain fwb where b: "Encode e w0 [obj] = (Some err, fwb)"
    using Nil.prems(2) by (cases "Encode e w0 [obj]") auto
  then have "fwb = w0" by (rule Encode_single_error_writes_nothing)
  with b Nil.prems(3) have "Encode e fw [obj] = (Some err, fw)"
    by (subst Encode_single_appends) auto
  with Nil.prems(1) show ?case
    by (subst append_Nil, subst Encode_Cons) simp
next
  case (Cons p pre)
  from Cons.prems(1) obtain f fs where fr: "frames = f # fs"
    and p: "Encode e w0 [p] = (None, w0\<lparr>Frames := [f]\<rparr>)"
    and rest: "list_all2 (\<lambda>obj frame. Encode e w0 [obj] = (None, w0\<lparr>Frames := [frame]\<rparr>)) pre fs"
    by (auto simp: list_all2_Cons1)
  from p Cons.prems(3) have step: "Encode e fw [p] = (None, fw\<lparr>Frames := Frames fw @ [f]\<rparr>)"
    by (subst Encode_single_appends) auto
  have blank: "(fw\<lparr>Frames := Frames fw @ [f]\<rparr>)\<lparr>Frames := []\<rparr> = w0"
    using Cons.prems(3) by auto
  have "Encode e (fw\<lparr>Frames := Frames fw @ [f]\<rparr>) (pre @ obj # rest) =
          (Some err, (fw\<lparr>Frames := Frames fw @ [f]\<rparr>)
                        \<lparr>Frames := Frames (fw\<lparr>Frames := Frames fw @ [f]\<rparr>) @ fs\<rparr>)"
    by (rule Cons.IH [OF rest Cons.prems(2) blank])
  with step fr show ?case
    by (subst append_Cons, subst Encode_Cons) simp
qed

text \<open>
  C8. The objects passed to \<^verbatim>\<open>Encode\<close> are processed in order and the call returns
  the first error: when every object of \<^verbatim>\<open>pre\<close> is encoded with success (each, on
  its own, writes one frame) and the next object fails with \<^verbatim>\<open>err\<close>, the call on
  \<^verbatim>\<open>pre @ obj # rest\<close> returns \<^verbatim>\<open>err\<close>, the writer has received the frames of
  \<^verbatim>\<open>pre\<close>, one for each object and in their order, and nothing else: the result is
  the same for every \<^verbatim>\<open>rest\<close>, so no object after the failing one is resolved,
  converted or serialized.
\<close>

theorem Encode_stops_at_first_error:
  assumes "list_all2 (\<lambda>obj frame. Encode e (fw\<lparr>Frames := []\<rparr>) [obj] =
                         (None, fw\<lparr>Frames := [frame]\<rparr>)) pre frames"
      and "fst (Encode e (fw\<lparr>Frames := []\<rparr>) [obj]) = Some err"
  shows "Encode e fw (pre @ obj # rest) = (Some err, fw\<lparr>Frames := Frames fw @ frames\<rparr>)"
  using Encode_prefix_then_error [of e "fw\<lparr>Frames := []\<rparr>" pre frames obj err fw rest] assms
  by simp

theorem Encode_stops_at_first_error_witness:
  "Encode fooEncoder yamlWriter ([internalSimple, externalSimple] @ internalBar # [internalComplex]) =
     (Some (Errorf ''expected some version to be registered for group %s'' [ArgString ''bargroup'']),
      yamlWriter\<lparr>Frames := [''foogroup/v1alpha1 InternalSimple'', ''foogroup/v1alpha2 ExternalSimple'']\<rparr>)"
proof -
  have one: "Encode fooEncoder (yamlWriter\<lparr>Frames := []\<rparr>) [internalSimple] =
               (None, yamlWriter\<lparr>Frames := [''foogroup/v1alpha1 InternalSimple'']\<rparr>)"
    by (simp add: Encode_single externalGVKForObject_def Let_def gvkForObject_def Empty_def
          EncodeForGroupVersion_def GVKGroupVersion_def example_defs del: Encode.simps)
  have two: "Encode fooEncoder (yamlWriter\<lparr>Frames := []\<rparr>) [externalSimple] =
               (None, yamlWriter\<lparr>Frames := [''foogroup/v1alpha2 ExternalSimple'']\<rparr>)"
    by (simp add: Encode_single externalGVKForObject_def Let_def gvkForObject_def Empty_def
          EncodeForGroupVersion_def GVKGroupVersion_def example_defs del: Encode.simps)
  have bad: "fst (Encode fooEncoder (yamlWriter\<lparr>Frames := []\<rparr>) [internalBar]) =
               Some (Errorf ''expected some version to be registered for group %s''
                       [ArgString ''bargroup''])"
    by (simp add: Encode_single externalGVKForObject_def Let_def gvkForObject_def Empty_def
          example_defs del: Encode.simps)
  have pre: "list_all2 (\<lambda>obj frame. Encode fooEncoder (yamlWriter\<lparr>Frames := []\<rparr>) [obj] =
                          (None, yamlWriter\<lparr>Frames := [frame]\<rparr>))
               [internalSimple, externalSimple]
               [''foogroup/v1alpha1 InternalSimple'', ''foogroup/v1alpha2 ExternalSimple'']"
    using one two by simp
  have "Frames yamlWriter = []" by (simp add: yamlWriter_def)
  with Encode_stops_at_first_error [OF pre bad, of "[internalComplex]"] show ?thesis by simp
qed

section \<open>Defaulting an internal object\<close>

text \<open>
  C7. An operation returns the errors it meets. \<^verbatim>\<open>DefaultInternal\<close> does not: when
  the registry fails to make the new object of the preferred external identifier, the call
  returns nil and leaves the object as it was. The witness is the internal kind
  \<^verbatim>\<open>Only\<close>, which is not registered in the preferred version of its group.
\<close>

theorem DefaultInternal_swallows_New_error:
  assumes "externalGVKForObject s cfg = Inr gvk" and "New s gvk = Inl err"
  shows "DefaultInternal s cfg = Inr cfg"
  using assms by (simp add: DefaultInternal_def)

theorem DefaultInternal_swallows_New_error_witness:
  "New fooScheme (mkGVK ''foogroup'' ''v1alpha1'' ''Only'') = Inl (ExternalError ''notRegisteredErr'')
   \<and> DefaultInternal fooScheme internalOnly = Inr internalOnly"
  using DefaultInternal_swallows_New_error [OF extgvk_internalOnly New_external_Only]
        New_external_Only
  by simp

text \<open>
  Wherever the registry can make the new external object, \<^verbatim>\<open>DefaultInternal\<close> is
  the composition of the specification, errors included.
\<close>

lemma DefaultInternal_composition_when_New_succeeds:
  assumes "\<And>gvk err. externalGVKForObject s cfg = Inr gvk \<Longrightarrow> New s gvk \<noteq> Inl err"
  shows "DefaultInternal s cfg = DefaultInternalComposition s cfg"
  using assms
  by (auto simp: DefaultInternal_def DefaultInternalComposition_def split: sum.splits)

lemma DefaultInternal_internalComplex:
  "DefaultInternal fooScheme internalComplex =
     Inr (internalComplex\<lparr>Fields := [(''String'', ''bar''), (''Integer64'', ''5'')]\<rparr>)"
  by (simp add: DefaultInternal_def externalGVKForObject_def gvkForObject_def Empty_def Let_def
        example_defs)

text \<open>
  C6. Defaulting an internal object is the composition: convert to the preferred external
  version, default the external object, convert back. On the internal object
  \<^verbatim>\<open>internalOnly\<close> the code is not that composition: the first step of the
  composition fails, since no object of the preferred external identifier can be made, and
  \<^verbatim>\<open>DefaultInternal\<close> reports success with the object unchanged.
\<close>

theorem DefaultInternal_differs_from_composition:
  "DefaultInternalComposition fooScheme internalOnly = Inl (ExternalError ''notRegisteredErr'')
   \<and> DefaultInternal fooScheme internalOnly = Inr internalOnly"
  by (simp add: DefaultInternalComposition_def DefaultInternal_def extgvk_internalOnly
        New_external_Only)

section \<open>Conversion\<close>

text \<open>
  C4, as the claim states it, fails in two ways. A Convertible \<^verbatim>\<open>in\<close> and a Hub
  \<^verbatim>\<open>out\<close> do not suffice for the type's own conversion to be called:
  \<^verbatim>\<open>convertIntoHub\<close> validates \<^verbatim>\<open>in\<close> first, and for a widget whose type the
  registry does not know the validation fails and \<^verbatim>\<open>Convert\<close> returns its error,
  which is no \<^verbatim>\<open>CRDConversionError\<close> of cause ConvertTo, although the widget's
  \<^verbatim>\<open>ConvertTo\<close> would fail. And a Hub \<^verbatim>\<open>in\<close> with a Convertible
  \<^verbatim>\<open>out\<close> does not reach the from-hub conversion when \<^verbatim>\<open>in\<close> is itself
  Convertible: the first test of \<^verbatim>\<open>Convert\<close> takes it, and \<^verbatim>\<open>out\<close> not being
  a Hub gives the cause InvalidArgs.
\<close>

theorem Convert_validates_before_converting:
  "Convertible widgetTypes (GoType brokenWidgetV1)
   \<and> Hub widgetTypes (GoType emptyWidgetV2)
   \<and> ConvertTo widgetTypes brokenWidgetV1 emptyWidgetV2 = Inl (ExternalError ''ConvertTo'')
   \<and> Convert widgetTypes \<lparr>convScheme = fooScheme, doConvertToHub = True\<rparr> brokenWidgetV1
         emptyWidgetV2 None =
       Inl (Errorf ''unversioned %t or err %v or invalid gvks %v''
              [ArgBool False, ArgErr (Some (ExternalError ''notRegisteredErr'')), ArgGVKs []])
   \<and> Hub hubAndSpokeTypes (GoType widgetV2)
   \<and> Convertible hubAndSpokeTypes (GoType widgetV2)
   \<and> Convertible hubAndSpokeTypes (GoType widgetV1)
   \<and> Convert hubAndSpokeTypes \<lparr>convScheme = widgetScheme, doConvertToHub = True\<rparr> widgetV2
         widgetV1 None =
       Inl (CRDConversionError None CRDConversionErrorCauseInvalidArgs
              (Some (Errorf ''if in object is Convertible, out must be Hub'' [])))"
  by (simp add: Convert_def convertIntoHub_def validateConvertible_def gvkForObject_def Empty_def
        NewCRDConversionError_def hubAndSpokeTypes_def example_defs)

text \<open>
  C4, amended. \<^verbatim>\<open>Convert\<close> tries its cases in order. When \<^verbatim>\<open>in\<close> is
  Convertible and \<^verbatim>\<open>out\<close> is not a Hub, it fails with a
  \<^verbatim>\<open>CRDConversionError\<close> of cause InvalidArgs. When \<^verbatim>\<open>in\<close> is Convertible and
  \<^verbatim>\<open>out\<close> is a Hub, it takes the to-hub path (\<^verbatim>\<open>convertIntoHub\<close>):
  \<^verbatim>\<open>in\<close> is validated first and an error of the validation is returned as it is;
  once \<^verbatim>\<open>in\<close> is validated, the type's own \<^verbatim>\<open>ConvertTo\<close> is called and its
  failure gives a \<^verbatim>\<open>CRDConversionError\<close> of cause ConvertTo. When \<^verbatim>\<open>in\<close> is
  not Convertible and \<^verbatim>\<open>out\<close> is, \<^verbatim>\<open>in\<close> must be a Hub (cause InvalidArgs
  otherwise), and the from-hub path does the same with \<^verbatim>\<open>out\<close>: validation first,
  then \<^verbatim>\<open>ConvertFrom\<close>, whose failure gives the cause ConvertFrom. When neither is
  Convertible, the result is the registry's generic conversion.
\<close>

theorem Convert_dispatch:
  "(Convertible T (GoType inp) \<and> \<not> Hub T (GoType out) \<longrightarrow>
      Convert T c inp out context =
        Inl (CRDConversionError None CRDConversionErrorCauseInvalidArgs
               (Some (Errorf ''if in object is Convertible, out must be Hub'' []))))
   \<and> (Convertible T (GoType inp) \<and> Hub T (GoType out) \<longrightarrow>
      Convert T c inp out context = convertIntoHub T c inp out
      \<and> (\<forall>err. validateConvertible T inp (convScheme c) = Inl err \<longrightarrow>
            Convert T c inp out context = Inl err)
      \<and> (\<forall>gvk err.
            validateConvertible T inp (convScheme c) = Inr gvk \<and> ConvertTo T inp out = Inl err \<longrightarrow>
            Convert T c inp out context =
              Inl (CRDConversionError (Some gvk) CRDConversionErrorCauseConvertTo (Some err))))
   \<and> (\<not> Convertible T (GoType inp) \<and> Convertible T (GoType out) \<and> \<not> Hub T (GoType inp) \<longrightarrow>
      Convert T c inp out context =
        Inl (CRDConversionError None CRDConversionErrorCauseInvalidArgs
               (Some (Errorf ''if out object is Convertible, in must be Hub'' []))))
   \<and> (\<not> Convertible T (GoType inp) \<and> Convertible T (GoType out) \<and> Hub T (GoType inp) \<longrightarrow>
      Convert T c inp out context = convertFromHub T c inp out
      \<and> (\<forall>err. validateConvertible T out (convScheme c) = Inl err \<longrightarrow>
            Convert T c inp out context = Inl err)
      \<and> (\<forall>gvk err.
            validateConvertible T out (convScheme c) = Inr gvk \<and> ConvertFrom T out inp = Inl err \<longrightarrow>
            Convert T c inp out context =
              Inl (CRDConversionError (Some gvk) CRDConversionErrorCauseConvertFrom (Some err))))
   \<and> (\<not> Convertible T (GoType inp) \<and> \<not> Convertible T (GoType out) \<longrightarrow>
      Convert T c inp out context = SchemeConvert (convScheme c) inp out context)"
  by (simp add: Convert_def convertIntoHub_def convertFromHub_def NewCRDConversionError_def)

theorem Convert_dispatch_witness:
  "Convert widgetTypes \<lparr>convScheme = widgetScheme, doConvertToHub = True\<rparr> widgetV1 internalSimple None =
     Inl (CRDConversionError None CRDConversionErrorCauseInvalidArgs
            (Some (Errorf ''if in object is Convertible, out must be Hub'' [])))
   \<and> Convert widgetTypes \<lparr>convScheme = widgetScheme, doConvertToHub = True\<rparr> brokenWidgetV1
       emptyWidgetV2 None =
     Inl (CRDConversionError (Some (mkGVK ''crd'' ''v1'' ''Widget'')) CRDConversionErrorCauseConvertTo
            (Some (ExternalError ''ConvertTo'')))
   \<and> Convert widgetTypes \<lparr>convScheme = fooScheme, doConvertToHub = True\<rparr> brokenWidgetV1
       emptyWidgetV2 None =
     Inl (Errorf ''unversioned %t or err %v or invalid gvks %v''
            [ArgBool False, ArgErr (Some (ExternalError ''notRegisteredErr'')), ArgGVKs []])
   \<and> Convert widgetTypes \<lparr>convScheme = widgetScheme, doConvertToHub = True\<rparr> internalSimple
       widgetV1 None =
     Inl (CRDConversionError None CRDConversionErrorCauseInvalidArgs
            (Some (Errorf ''if out object is Convertible, in must be Hub'' [])))
   \<and> Convert widgetTypes \<lparr>convScheme = widgetScheme, doConvertToHub = True\<rparr> emptyWidgetV2
       brokenWidgetV1 None =
     Inl (CRDConversionError (Some (mkGVK ''crd'' ''v1'' ''Widget'')) CRDConversionErrorCauseConvertFrom
            (Some (ExternalError ''ConvertFrom'')))
   \<and> Convert widgetTypes \<lparr>convScheme = widgetScheme, doConvertToHub = True\<rparr> internalSimple
       externalSimple None =
     Inr externalSimple"
proof -
  let ?c = "\<lparr>convScheme = widgetScheme, doConvertToHub = True\<rparr>"
  let ?f = "\<lparr>convScheme = fooScheme, doConvertToHub = True\<rparr>"
  have v: "validateConvertible widgetTypes brokenWidgetV1 (convScheme ?c) =
             Inr (mkGVK ''crd'' ''v1'' ''Widget'')"
    using validate_brokenWidgetV1 by simp
  have nv: "validateConvertible widgetTypes brokenWidgetV1 (convScheme ?f) =
              Inl (Errorf ''unversioned %t or err %v or invalid gvks %v''
                     [ArgBool False, ArgErr (Some (ExternalError ''notRegisteredErr'')), ArgGVKs []])"
    by (simp add: validateConvertible_def gvkForObject_def Empty_def example_defs)
  have caps: "Convertible widgetTypes (GoType widgetV1)" "\<not> Hub widgetTypes (GoType internalSimple)"
    "Convertible widgetTypes (GoType brokenWidgetV1)" "Hub widgetTypes (GoType emptyWidgetV2)"
    "\<not> Convertible widgetTypes (GoType emptyWidgetV2)"
    "\<not> Convertible widgetTypes (GoType internalSimple)"
    "\<not> Convertible widgetTypes (GoType externalSimple)"
    by (simp_all add: example_defs)
  have cto: "ConvertTo widgetTypes brokenWidgetV1 emptyWidgetV2 = Inl (ExternalError ''ConvertTo'')"
    by (simp add: example_defs)
  have cfrom: "ConvertFrom widgetTypes brokenWidgetV1 emptyWidgetV2 =
                 Inl (ExternalError ''ConvertFrom'')"
    by (simp add: example_defs)
  have gen: "SchemeConvert (convScheme ?c) internalSimple externalSimple None = Inr externalSimple"
    by (simp add: example_defs)
  have a: "Convert widgetTypes ?c widgetV1 internalSimple None =
     Inl (CRDConversionError None CRDConversionErrorCauseInvalidArgs
            (Some (Errorf ''if in object is Convertible, out must be Hub'' [])))"
    using Convert_dispatch [of widgetTypes widgetV1 internalSimple ?c None] caps by blast
  have b: "Convert widgetTypes ?c brokenWidgetV1 emptyWidgetV2 None =
     Inl (CRDConversionError (Some (mkGVK ''crd'' ''v1'' ''Widget'')) CRDConversionErrorCauseConvertTo
            (Some (ExternalError ''ConvertTo'')))"
    using Convert_dispatch [of widgetTypes brokenWidgetV1 emptyWidgetV2 ?c None] caps v cto by blast
  have b': "Convert widgetTypes ?f brokenWidgetV1 emptyWidgetV2 None =
     Inl (Errorf ''unversioned %t or err %v or invalid gvks %v''
            [ArgBool False, ArgErr (Some (ExternalError ''notRegisteredErr'')), ArgGVKs []])"
    using Convert_dispatch [of widgetTypes brokenWidgetV1 emptyWidgetV2 ?f None] caps nv by blast
  have a': "Convert widgetTypes ?c internalSimple widgetV1 None =
     Inl (CRDConversionError None CRDConversionErrorCauseInvalidArgs
            (Some (Errorf ''if out object is Convertible, in must be Hub'' [])))"
    using Convert_dispatch [of widgetTypes internalSimple widgetV1 ?c None] caps by blast
  have c: "Convert widgetTypes ?c emptyWidgetV2 brokenWidgetV1 None =
     Inl (CRDConversionError (Some (mkGVK ''crd'' ''v1'' ''Widget'')) CRDConversionErrorCauseConvertFrom
            (Some (ExternalError ''ConvertFrom'')))"
    using Convert_dispatch [of widgetTypes emptyWidgetV2 brokenWidgetV1 ?c None] caps v cfrom by blast
  have d: "Convert widgetTypes ?c internalSimple externalSimple None = Inr externalSimple"
    using Convert_dispatch [of widgetTypes internalSimple externalSimple ?c None] caps gen by simp
  from a b b' a' c d show ?thesis by blast
qed

subsection \<open>Two hubs for one kind\<close>







text \<open>
  With the one hub of the first registry the same object is converted: the validation
  passes, the hub is found and stamped with its identifier.
\<close>

lemma convertToHub_one_hub:
  "convertToHub widgetTypes \<lparr>convScheme = widgetScheme, doConvertToHub = True\<rparr> widgetV1 =
     Inr \<lparr>GoType = ''WidgetV2'', TypeMeta = mkGVK ''crd'' ''v2'' ''Widget'',
          Fields = [(''Size'', ''3'')]\<rparr>"
  by (simp add: convertToHub_def validateConvertible_def IsConvertible_def objectGVKs_def
        gvkForObject_def findHubType_def Empty_def GVKGroupKind_def GroupKindString_def
        example_defs)

subsection \<open>No conversion to the hub\<close>

text \<open>
  C10. When the convert-to-hub option is off, \<^verbatim>\<open>ConvertToVersion\<close> succeeds for
  every object and every target \<^verbatim>\<open>GroupVersioner\<close>, and its result is the deep copy
  of the input: an object equal to the input, of the input's version (nothing is converted
  to the internal version). Objects are values here and the function returns a new one, so
  the input is as it was.
\<close>

theorem ConvertToVersion_without_hub_conversion:
  assumes "\<not> doConvertToHub c"
  shows "ConvertToVersion T c inp gv = Inr (DeepCopyObject inp)
         \<and> DeepCopyObject inp = inp
         \<and> Version (TypeMeta (DeepCopyObject inp)) = Version (TypeMeta inp)"
  using assms by (simp add: ConvertToVersion_def DeepCopyObject_def)

theorem ConvertToVersion_without_hub_conversion_witness:
  "ConvertToVersion widgetTypes \<lparr>convScheme = widgetScheme, doConvertToHub = False\<rparr> widgetV1
     InternalGroupVersioner = Inr widgetV1
   \<and> ConvertToVersion widgetTypes \<lparr>convScheme = fooScheme, doConvertToHub = False\<rparr> externalSimple
       (ToGroupVersion \<lparr>gvGroup = ''foogroup'', gvVersion = ''v1alpha1''\<rparr>) = Inr externalSimple"
  using ConvertToVersion_without_hub_conversion
          [of "\<lparr>convScheme = widgetScheme, doConvertToHub = False\<rparr>" widgetTypes widgetV1
              InternalGroupVersioner]
        ConvertToVersion_without_hub_conversion
          [of "\<lparr>convScheme = fooScheme, doConvertToHub = False\<rparr>" widgetTypes externalSimple
              "ToGroupVersion \<lparr>gvGroup = ''foogroup'', gvVersion = ''v1alpha1''\<rparr>"]
  by simp

end
